theory Spec2Isabelle
  imports Complex_Main
begin

section \<open>Cursor-list state (useMultipleCursors)\<close>

text \<open>
  \<^verbatim>\<open>CursorType\<close> and \<^verbatim>\<open>CursorOptions\<close> of the types module. \<^verbatim>\<open>alpha\<close> is a JavaScript
  number on which the hook does no arithmetic, so its type is left open.
\<close>

datatype CursorType = Standard | ThinLeft | ShortThinTopLeft | CurrentArea | CurrentAreaLeft

record 'n CursorOptions =
  type :: CursorType
  color :: string
  alpha :: 'n
  follow :: bool

text \<open>
  \<^verbatim>\<open>Partial<CursorOptions>\<close>: every key may be absent (\<open>None\<close>).
\<close>

record 'n PartialCursorOptions =
  type_opt :: "CursorType option"
  color_opt :: "string option"
  alpha_opt :: "'n option"
  follow_opt :: "bool option"

text \<open>
  The object spread \<^verbatim>\<open>{ ...cursor, ...update }\<close>: the keys present in \<^verbatim>\<open>update\<close> override.
\<close>

definition spread :: "'n CursorOptions \<Rightarrow> 'n PartialCursorOptions \<Rightarrow> 'n CursorOptions" where
  "spread cursor update =
     \<lparr> type = (case type_opt update of None \<Rightarrow> type cursor | Some t \<Rightarrow> t),
       color = (case color_opt update of None \<Rightarrow> color cursor | Some c \<Rightarrow> c),
       alpha = (case alpha_opt update of None \<Rightarrow> alpha cursor | Some a \<Rightarrow> a),
       follow = (case follow_opt update of None \<Rightarrow> follow cursor | Some f \<Rightarrow> f) \<rparr>"

text \<open>
  \<^verbatim>\<open>Array.prototype.filter\<close> and \<^verbatim>\<open>Array.prototype.map\<close> with a callback that also
  receives the position of the element; the second argument is the position of the head.
\<close>

fun filter_from :: "('a \<Rightarrow> nat \<Rightarrow> bool) \<Rightarrow> nat \<Rightarrow> 'a list \<Rightarrow> 'a list" where
  "filter_from p i [] = []"
| "filter_from p i (x # xs) = (if p x i then x # filter_from p (Suc i) xs else filter_from p (Suc i) xs)"

fun map_from :: "('a \<Rightarrow> nat \<Rightarrow> 'b) \<Rightarrow> nat \<Rightarrow> 'a list \<Rightarrow> 'b list" where
  "map_from f i [] = []"
| "map_from f i (x # xs) = f x i # map_from f (Suc i) xs"

definition array_filter :: "('a \<Rightarrow> nat \<Rightarrow> bool) \<Rightarrow> 'a list \<Rightarrow> 'a list" where
  "array_filter p xs = filter_from p 0 xs"

definition array_map :: "('a \<Rightarrow> nat \<Rightarrow> 'b) \<Rightarrow> 'a list \<Rightarrow> 'b list" where
  "array_map f xs = map_from f 0 xs"

text \<open>
  The four setters of the hook, as functions from the previous list to the next one
  (the source passes exactly these functions to \<^verbatim>\<open>setCursors\<close>). The index is an integer
  the caller chooses freely; list positions are natural numbers.
\<close>

definition addCursor :: "'n CursorOptions \<Rightarrow> 'n CursorOptions list \<Rightarrow> 'n CursorOptions list" where
  "addCursor cursor prev = prev @ [cursor]"

definition removeCursor :: "int \<Rightarrow> 'n CursorOptions list \<Rightarrow> 'n CursorOptions list" where
  "removeCursor index prev = array_filter (\<lambda>_ i. int i \<noteq> index) prev"

definition updateCursor ::
  "int \<Rightarrow> 'n PartialCursorOptions \<Rightarrow> 'n CursorOptions list \<Rightarrow> 'n CursorOptions list" where
  "updateCursor index update prev =
     array_map (\<lambda>cursor i. if int i = index then spread cursor update else cursor) prev"

definition clearCursors :: "'n CursorOptions list \<Rightarrow> 'n CursorOptions list" where
  "clearCursors prev = []"

section \<open>Coloring state (useColoring)\<close>

datatype ColoringMode = XML | Boomwhacker | CustomColorSet

text \<open>
  \<^verbatim>\<open>UseColoringOptions\<close>: three optional keys, and no key for dark mode.
\<close>

record UseColoringOptions =
  mode :: "ColoringMode option"
  customColors_opt :: "string list option"
  enabled :: "bool option"

record coloring_state =
  coloringMode :: ColoringMode
  customColors :: "string list"
  coloringEnabled :: bool
  darkMode :: bool

definition defaultBoomwhackerColors :: "string list" where
  "defaultBoomwhackerColors =
     [''#ff0000'', ''#ff7f00'', ''#ffff00'', ''#00ff00'', ''#0000ff'', ''#4b0082'', ''#9400d3'', ''#000000'']"

text \<open>
  The state after the first render: the four \<^verbatim>\<open>useState\<close> initialisers, with \<^verbatim>\<open>??\<close>
  choosing the default for an absent key.
\<close>

definition useColoring :: "UseColoringOptions \<Rightarrow> coloring_state" where
  "useColoring initialOptions =
     \<lparr> coloringMode = (case mode initialOptions of None \<Rightarrow> XML | Some m \<Rightarrow> m),
       customColors = (case customColors_opt initialOptions of None \<Rightarrow> defaultBoomwhackerColors | Some cs \<Rightarrow> cs),
       coloringEnabled = (case enabled initialOptions of None \<Rightarrow> False | Some b \<Rightarrow> b),
       darkMode = False \<rparr>"

text \<open>
  The only ways the state changes afterwards are the four setters the hook returns.
\<close>

datatype coloring_action =
    SetColoringMode ColoringMode
  | SetCustomColors "string list"
  | SetColoringEnabled bool
  | SetDarkMode bool

fun coloring_step :: "coloring_state \<Rightarrow> coloring_action \<Rightarrow> coloring_state" where
  "coloring_step s (SetColoringMode m) = s\<lparr>coloringMode := m\<rparr>"
| "coloring_step s (SetCustomColors cs) = s\<lparr>customColors := cs\<rparr>"
| "coloring_step s (SetColoringEnabled b) = s\<lparr>coloringEnabled := b\<rparr>"
| "coloring_step s (SetDarkMode b) = s\<lparr>darkMode := b\<rparr>"

definition coloring_run :: "coloring_state \<Rightarrow> coloring_action list \<Rightarrow> coloring_state" where
  "coloring_run s acts = foldl coloring_step s acts"

text \<open>
  \<^verbatim>\<open>getOptions\<close>: the custom palette is passed on only in the custom-palette mode.
\<close>

record coloring_options =
  opt_coloringMode :: ColoringMode
  opt_coloringEnabled :: bool
  opt_coloringSetCustom :: "string list option"
  opt_darkMode :: bool

definition getOptions :: "coloring_state \<Rightarrow> coloring_options" where
  "getOptions s =
     \<lparr> opt_coloringMode = coloringMode s,
       opt_coloringEnabled = coloringEnabled s,
       opt_coloringSetCustom = (if coloringMode s = CustomColorSet then Some (customColors s) else None),
       opt_darkMode = darkMode s \<rparr>"

section \<open>Page-format state (usePageFormat)\<close>

text \<open>
  \<^verbatim>\<open>PageFormat\<close>; \<^verbatim>\<open>isInfinite\<close> is an optional key. The type of the numbers is left
  open where the hook only stores them; the registry holds real numbers.
\<close>

record 'n PageFormat =
  width :: 'n
  height :: 'n
  idString :: string
  isInfinite :: "bool option"

definition Endless :: "real PageFormat" where
  "Endless = \<lparr> width = 210, height = 10000, idString = ''Endless'', isInfinite = Some True \<rparr>"

text \<open>
  The object literal \<^verbatim>\<open>PageFormats\<close>, as the list of its own keys and their values, in the
  order of the source.
\<close>

definition PageFormats :: "(string \<times> real PageFormat) list" where
  "PageFormats =
     [ (''A3_L'', \<lparr> width = 420, height = 297, idString = ''A3_L'', isInfinite = None \<rparr>),
       (''A3_P'', \<lparr> width = 297, height = 420, idString = ''A3_P'', isInfinite = None \<rparr>),
       (''A4_L'', \<lparr> width = 297, height = 210, idString = ''A4_L'', isInfinite = None \<rparr>),
       (''A4_P'', \<lparr> width = 210, height = 297, idString = ''A4_P'', isInfinite = None \<rparr>),
       (''A5_L'', \<lparr> width = 210, height = 148, idString = ''A5_L'', isInfinite = None \<rparr>),
       (''A5_P'', \<lparr> width = 148, height = 210, idString = ''A5_P'', isInfinite = None \<rparr>),
       (''A6_L'', \<lparr> width = 148, height = 105, idString = ''A6_L'', isInfinite = None \<rparr>),
       (''A6_P'', \<lparr> width = 105, height = 148, idString = ''A6_P'', isInfinite = None \<rparr>),
       (''Letter_L'', \<lparr> width = 2794 / 10, height = 2159 / 10, idString = ''Letter_L'', isInfinite = None \<rparr>),
       (''Letter_P'', \<lparr> width = 2159 / 10, height = 2794 / 10, idString = ''Letter_P'', isInfinite = None \<rparr>),
       (''Endless'', Endless) ]"

text \<open>
  \<^verbatim>\<open>PageFormats\<close> is written as an object literal, so its prototype is \<^verbatim>\<open>Object.prototype\<close>,
  and the property read \<^verbatim>\<open>PageFormats[name]\<close> that \<^verbatim>\<open>setFormat\<close> performs looks a name up
  among the own keys first and among the properties of \<^verbatim>\<open>Object.prototype\<close> next. These are
  the property names the language standard puts there; each is bound to a function, but
  \<^verbatim>\<open>__proto__\<close>, which reads as the prototype object itself.
\<close>

definition Object_prototype_keys :: "string list" where
  "Object_prototype_keys =
     [ ''constructor'', ''hasOwnProperty'', ''isPrototypeOf'', ''propertyIsEnumerable'',
       ''toLocaleString'', ''toString'', ''valueOf'', ''__proto__'',
       ''__defineGetter__'', ''__defineSetter__'', ''__lookupGetter__'', ''__lookupSetter__'' ]"

text \<open>
  What \<^verbatim>\<open>setFormat\<close> and \<^verbatim>\<open>setCustomFormat\<close> can hand to \<^verbatim>\<open>setFormatState\<close> at run time: a
  page-format record, or the member of \<^verbatim>\<open>Object.prototype\<close> of the given name.
\<close>

datatype 'n format_value = Format "'n PageFormat" | PrototypeMember string

text \<open>
  The property read: \<open>None\<close> is \<^verbatim>\<open>undefined\<close>.
\<close>

definition PageFormats_get :: "string \<Rightarrow> real format_value option" where
  "PageFormats_get name =
     (case map_of PageFormats name of
        Some f \<Rightarrow> Some (Format f)
      | None \<Rightarrow> if name \<in> set Object_prototype_keys then Some (PrototypeMember name) else None)"

text \<open>
  \<^verbatim>\<open>a || b\<close> where \<^verbatim>\<open>a\<close> is an object, a function or \<^verbatim>\<open>undefined\<close>: objects and functions
  are truthy, \<^verbatim>\<open>undefined\<close> is not.
\<close>

definition or_else :: "'a option \<Rightarrow> 'a \<Rightarrow> 'a" where
  "or_else a b = (case a of Some v \<Rightarrow> v | None \<Rightarrow> b)"

text \<open>
  The argument of \<^verbatim>\<open>setFormat\<close> and the value of \<^verbatim>\<open>initialFormat\<close>: \<^verbatim>\<open>string | PageFormat\<close>.
\<close>

datatype 'n format_arg = Name string | Object "'n PageFormat"

text \<open>
  \<^verbatim>\<open>getInitialFormat\<close>: an absent option and the empty string are falsy.
\<close>

definition getInitialFormat :: "real format_arg option \<Rightarrow> real format_value" where
  "getInitialFormat initialFormat =
     (case initialFormat of
        None \<Rightarrow> Format Endless
      | Some (Name name) \<Rightarrow>
          if name = [] then Format Endless else or_else (PageFormats_get name) (Format Endless)
      | Some (Object f) \<Rightarrow> Format f)"

text \<open>
  \<^verbatim>\<open>setFormat\<close> and \<^verbatim>\<open>setCustomFormat\<close> give \<^verbatim>\<open>setFormatState\<close> a value that does not depend
  on the previous state; the functions below return that value, the argument of the
  setter. A page-format record given to the setter is the next state. A function given
  to it is not: the framework calls a function as an updater, with the previous state as
  argument, and stores what the call returns.
\<close>

definition setFormat :: "real format_arg \<Rightarrow> real format_value" where
  "setFormat newFormat =
     (case newFormat of
        Name name \<Rightarrow> or_else (PageFormats_get name) (Format Endless)
      | Object f \<Rightarrow> Format f)"

text \<open>
  A template literal is a list of literal chunks and substituted numbers; evaluating it
  converts each number with the language's number-to-string conversion, here the
  parameter \<open>toStr\<close>, and concatenates.
\<close>

datatype 'n template_part = Chunk string | Subst 'n

fun template_literal :: "('n \<Rightarrow> string) \<Rightarrow> 'n template_part list \<Rightarrow> string" where
  "template_literal toStr [] = []"
| "template_literal toStr (Chunk s # ps) = s @ template_literal toStr ps"
| "template_literal toStr (Subst n # ps) = toStr n @ template_literal toStr ps"

definition setCustomFormat :: "('n \<Rightarrow> string) \<Rightarrow> 'n \<Rightarrow> 'n \<Rightarrow> string option \<Rightarrow> 'n format_value" where
  "setCustomFormat toStr w h id_arg =
     Format \<lparr> width = w, height = h,
              idString = (case id_arg of Some s \<Rightarrow> s
                          | None \<Rightarrow> template_literal toStr [Chunk ''Custom_'', Subst w, Chunk ''x'', Subst h]),
              isInfinite = Some False \<rparr>"

text \<open>
  The expression of the specification, \<^verbatim>\<open>"Custom_" + w + "x" + h\<close>: the operator \<^verbatim>\<open>+\<close> with a
  string on the left converts a number on the right with the same conversion and
  concatenates; it associates to the left.
\<close>

datatype 'n operand = Str string | Num 'n

fun string_plus :: "('n \<Rightarrow> string) \<Rightarrow> string \<Rightarrow> 'n operand \<Rightarrow> string" where
  "string_plus toStr s (Str t) = s @ t"
| "string_plus toStr s (Num n) = s @ toStr n"

definition spec_custom_id :: "('n \<Rightarrow> string) \<Rightarrow> 'n \<Rightarrow> 'n \<Rightarrow> string" where
  "spec_custom_id toStr w h =
     string_plus toStr (string_plus toStr (string_plus toStr ''Custom_'' (Num w)) (Str ''x'')) (Num h)"

text \<open>
  A number-to-string conversion for non-negative integers in decimal, to evaluate
  examples with.
\<close>

fun digits :: "nat \<Rightarrow> string" where
  "digits n = (if n < 10 then [char_of (48 + n)] else digits (n div 10) @ [char_of (48 + n mod 10)])"

declare digits.simps [simp del]

definition nat_toString :: "nat \<Rightarrow> string" where
  "nat_toString n = digits n"

section \<open>Engine binding (useOSMD)\<close>

text \<open>
  The rendering engine is external. Its calls are recorded in a trace, and what each call
  does (return, throw, resolve, reject) is an argument of the operation that makes it.

  A thrown or rejected JavaScript value is an \<^verbatim>\<open>Error\<close> object with its message, or some
  other value; \<^verbatim>\<open>instanceof Error\<close> tells them apart.
\<close>

datatype thrown = ErrorObject string | OtherValue string

fun instanceof_Error :: "thrown \<Rightarrow> bool" where
  "instanceof_Error (ErrorObject m) = True"
| "instanceof_Error (OtherValue v) = False"

text \<open>
  \<^verbatim>\<open>err instanceof Error ? err : new Error(msg)\<close>.
\<close>

definition as_Error :: "string \<Rightarrow> thrown \<Rightarrow> thrown" where
  "as_Error msg err = (if instanceof_Error err then err else ErrorObject msg)"

definition NotInitialized :: thrown where
  "NotInitialized = ErrorObject ''OSMD instance not initialized''"

text \<open>
  A load source, \<^verbatim>\<open>string | Document | Blob\<close>. Objects handed in by the caller are known by
  their identity, a number; \<open>ParsedDocument text mime\<close> is the document that
  \<^verbatim>\<open>new DOMParser().parseFromString(text, mime)\<close> returns.
\<close>

datatype source = Path string | DocumentRef nat | BlobRef nat | ParsedDocument string string

text \<open>
  An engine instance, as far as the hook reads it: its identity and the \<^verbatim>\<open>zoom\<close> it has
  when constructed.
\<close>

record engine =
  engine_id :: nat
  zoom :: real

text \<open>
  The trace: calls into the engine, calls of the state setters of the hook, and calls of
  the callbacks of the component, in the order in which they happen.
\<close>

datatype event =
    Construct
  | EngineLoad source "string option"
  | EngineRender
  | EngineClear
  | EngineSetZoom real
  | SetOsmd engine
  | SetZoomValue real
  | SetIsLoading bool
  | SetError "thrown option"
  | OnLoad engine
  | OnError thrown

fun is_engine_call :: "event \<Rightarrow> bool" where
  "is_engine_call Construct = True"
| "is_engine_call (EngineLoad s t) = True"
| "is_engine_call EngineRender = True"
| "is_engine_call EngineClear = True"
| "is_engine_call (EngineSetZoom z) = True"
| "is_engine_call e = False"

definition engine_calls :: "event list \<Rightarrow> event list" where
  "engine_calls tr = filter is_engine_call tr"

definition constructions :: "event list \<Rightarrow> nat" where
  "constructions tr = length (filter (\<lambda>e. e = Construct) tr)"

text \<open>
  The state of one activation of the hook: the four \<^verbatim>\<open>useState\<close> cells, the two
  \<^verbatim>\<open>useRef\<close> cells, and the trace.
\<close>

record hook_state =
  osmd :: "engine option"
  isLoading :: bool
  error :: "thrown option"
  zoomValue :: real
  initRef :: bool
  osmdRef :: "engine option"
  trace :: "event list"

definition useOSMD_initial :: hook_state where
  "useOSMD_initial =
     \<lparr> osmd = None, isLoading = False, error = None, zoomValue = 1,
       initRef = False, osmdRef = None, trace = [] \<rparr>"

text \<open>
  The initialisation effect of \<^verbatim>\<open>src/hooks/useOSMD.ts\<close>. \<open>container\<close> says whether
  \<^verbatim>\<open>containerRef.current\<close> is an element; \<open>ctor\<close> is what the constructor does if it is
  called: throw (\<open>Inl\<close>) or return an instance (\<open>Inr\<close>). \<^verbatim>\<open>instance.zoom || 1\<close> replaces
  a zero zoom by one. The \<^verbatim>\<open>try\<close> encloses the constructor call and the \<^verbatim>\<open>catch\<close>
  only sets the error state, so the effect has no exceptional result.
\<close>

definition init_effect :: "bool \<Rightarrow> thrown + engine \<Rightarrow> hook_state \<Rightarrow> hook_state" where
  "init_effect container ctor st =
     (if \<not> container \<or> initRef st then st
      else case ctor of
        Inr instance \<Rightarrow>
          (let z = (if zoom instance = 0 then 1 else zoom instance)
           in st\<lparr> osmdRef := Some instance, osmd := Some instance, zoomValue := z, initRef := True,
                   trace := trace st @ [Construct, SetOsmd instance, SetZoomValue z] \<rparr>)
      | Inl err \<Rightarrow>
          (let e = as_Error ''Failed to initialize OSMD'' err
           in st\<lparr> error := Some e, trace := trace st @ [Construct, SetError (Some e)] \<rparr>))"

text \<open>
  The initialisation effect of the other revision of the hook, in \<^verbatim>\<open>unnamed/part_003\<close>:
  its \<^verbatim>\<open>catch\<close> also sets \<^verbatim>\<open>initRef.current = true\<close>, with the comment that this prevents
  retrying the initialisation on later runs of the effect.
\<close>

definition init_effect_part_003 :: "bool \<Rightarrow> thrown + engine \<Rightarrow> hook_state \<Rightarrow> hook_state" where
  "init_effect_part_003 container ctor st =
     (if \<not> container \<or> initRef st then st
      else case ctor of
        Inr instance \<Rightarrow>
          (let z = (if zoom instance = 0 then 1 else zoom instance)
           in st\<lparr> osmdRef := Some instance, osmd := Some instance, zoomValue := z, initRef := True,
                   trace := trace st @ [Construct, SetOsmd instance, SetZoomValue z] \<rparr>)
      | Inl err \<Rightarrow>
          (let e = as_Error ''Failed to initialize OSMD'' err
           in st\<lparr> error := Some e, initRef := True,
                   trace := trace st @ [Construct, SetError (Some e)] \<rparr>))"

text \<open>
  The cleanup function the effect returns: it calls the engine's \<^verbatim>\<open>clear\<close> if there is an
  instance and swallows whatever that call throws.
\<close>

definition cleanup :: "thrown option \<Rightarrow> hook_state \<Rightarrow> hook_state" where
  "cleanup clear_outcome st =
     (case osmdRef st of
        None \<Rightarrow> st
      | Some instance \<Rightarrow>
          (case clear_outcome of
             None \<Rightarrow> st\<lparr> trace := trace st @ [EngineClear] \<rparr>
           | Some err \<Rightarrow> st\<lparr> trace := trace st @ [EngineClear] \<rparr>))"

text \<open>
  One activation runs the effect and its cleanup any number of times, the environment
  choosing the container and the behaviour of the constructor each time.
\<close>

datatype effect_run = RunEffect bool "thrown + engine" | RunCleanup "thrown option"

fun activation_step :: "hook_state \<Rightarrow> effect_run \<Rightarrow> hook_state" where
  "activation_step st (RunEffect container ctor) = init_effect container ctor st"
| "activation_step st (RunCleanup clear_outcome) = cleanup clear_outcome st"

fun activation_step_part_003 :: "hook_state \<Rightarrow> effect_run \<Rightarrow> hook_state" where
  "activation_step_part_003 st (RunEffect container ctor) = init_effect_part_003 container ctor st"
| "activation_step_part_003 st (RunCleanup clear_outcome) = cleanup clear_outcome st"

definition activation :: "effect_run list \<Rightarrow> hook_state" where
  "activation steps = foldl activation_step useOSMD_initial steps"

definition activation_part_003 :: "effect_run list \<Rightarrow> hook_state" where
  "activation_part_003 steps = foldl activation_step_part_003 useOSMD_initial steps"

fun attempts_construction :: "effect_run \<Rightarrow> bool" where
  "attempts_construction (RunEffect container ctor) = container"
| "attempts_construction (RunCleanup clear_outcome) = False"

text \<open>
  In the revision of \<^verbatim>\<open>unnamed/part_003\<close> the latch \<^verbatim>\<open>initRef\<close> is set exactly when the
  constructor has been called, and it has been called at most once.
\<close>

definition latch_inv :: "hook_state \<Rightarrow> bool" where
  "latch_inv st = (constructions (trace st) = (if initRef st then 1 else 0))"

text \<open>
  The revision in \<^verbatim>\<open>unnamed/part_003\<close> writes the two engine calls of \<^verbatim>\<open>load\<close> with optional
  chaining, \<^verbatim>\<open>load?.(file, title)\<close> and \<^verbatim>\<open>osmdRef.current?.render()\<close>. An instance of
  \<^verbatim>\<open>OpenSheetMusicDisplay\<close> has both methods and the reference is never reset, so the two
  revisions of \<^verbatim>\<open>load\<close> are one function here; \<^verbatim>\<open>render\<close>, \<^verbatim>\<open>clear\<close> and \<^verbatim>\<open>setZoom\<close> are the
  same text in both.
\<close>

text \<open>
  \<^verbatim>\<open>load\<close> is asynchronous. \<open>load_start\<close> is the part that runs until the engine's \<^verbatim>\<open>load\<close>
  has been called: the check of the instance, the two setters, the call. The result
  \<open>Inl\<close> is the exception thrown.
\<close>

definition load_start :: "source \<Rightarrow> string option \<Rightarrow> hook_state \<Rightarrow> thrown + hook_state" where
  "load_start file title st =
     (case osmdRef st of
        None \<Rightarrow> Inl NotInitialized
      | Some instance \<Rightarrow>
          Inr (st\<lparr> isLoading := True, error := None,
                    trace := trace st @ [SetIsLoading True, SetError None, EngineLoad file title] \<rparr>))"

text \<open>
  The \<^verbatim>\<open>catch\<close> block followed by the \<^verbatim>\<open>finally\<close> block.
\<close>

definition load_failed :: "thrown \<Rightarrow> hook_state \<Rightarrow> (thrown + unit) \<times> hook_state" where
  "load_failed err st =
     (let e = as_Error ''Failed to load music'' err
      in (Inl e, st\<lparr> error := Some e, isLoading := False,
                      trace := trace st @ [SetError (Some e), SetIsLoading False] \<rparr>))"

text \<open>
  \<open>load_settle\<close> is the part that runs once the promise of the engine has settled:
  \<open>load_outcome\<close> is \<open>None\<close> if it resolved and the rejection value otherwise, and
  \<open>render_outcome\<close> says whether \<^verbatim>\<open>render\<close>, if it comes to be called, returns or throws.
\<close>

definition load_settle :: "thrown option \<Rightarrow> thrown option \<Rightarrow> hook_state \<Rightarrow> (thrown + unit) \<times> hook_state" where
  "load_settle load_outcome render_outcome st =
     (case load_outcome of
        Some err \<Rightarrow> load_failed err st
      | None \<Rightarrow>
          (let st1 = st\<lparr> trace := trace st @ [EngineRender] \<rparr>
           in case render_outcome of
                Some err \<Rightarrow> load_failed err st1
              | None \<Rightarrow> (Inr (), st1\<lparr> isLoading := False, trace := trace st1 @ [SetIsLoading False] \<rparr>)))"

definition load ::
  "source \<Rightarrow> string option \<Rightarrow> thrown option \<Rightarrow> thrown option \<Rightarrow> hook_state \<Rightarrow> (thrown + unit) \<times> hook_state" where
  "load file title load_outcome render_outcome st =
     (case load_start file title st of
        Inl e \<Rightarrow> (Inl e, st)
      | Inr st1 \<Rightarrow> load_settle load_outcome render_outcome st1)"

text \<open>
  \<^verbatim>\<open>render\<close>, \<^verbatim>\<open>clear\<close> and \<^verbatim>\<open>setZoom\<close>. None of them catches what the engine throws.
\<close>

definition render :: "thrown option \<Rightarrow> hook_state \<Rightarrow> (thrown + unit) \<times> hook_state" where
  "render render_outcome st =
     (case osmdRef st of
        None \<Rightarrow> (Inl NotInitialized, st)
      | Some instance \<Rightarrow>
          (case render_outcome of
             None \<Rightarrow> (Inr (), st\<lparr> trace := trace st @ [EngineRender] \<rparr>)
           | Some err \<Rightarrow> (Inl err, st\<lparr> trace := trace st @ [EngineRender] \<rparr>)))"

definition clear :: "thrown option \<Rightarrow> hook_state \<Rightarrow> (thrown + unit) \<times> hook_state" where
  "clear clear_outcome st =
     (case osmdRef st of
        None \<Rightarrow> (Inr (), st)
      | Some instance \<Rightarrow>
          (case clear_outcome of
             None \<Rightarrow> (Inr (), st\<lparr> error := None, trace := trace st @ [EngineClear, SetError None] \<rparr>)
           | Some err \<Rightarrow> (Inl err, st\<lparr> trace := trace st @ [EngineClear] \<rparr>)))"

definition setZoom :: "real \<Rightarrow> thrown option \<Rightarrow> hook_state \<Rightarrow> (thrown + unit) \<times> hook_state" where
  "setZoom scale render_outcome st =
     (case osmdRef st of
        None \<Rightarrow> (Inr (), st)
      | Some instance \<Rightarrow>
          (let st1 = st\<lparr> zoomValue := scale, trace := trace st @ [EngineSetZoom scale, SetZoomValue scale, EngineRender] \<rparr>
           in case render_outcome of None \<Rightarrow> (Inr (), st1) | Some err \<Rightarrow> (Inl err, st1)))"

text \<open>
  \<^verbatim>\<open>isLoading\<close> becomes true only in \<open>load_start\<close>, which needs an instance, and the
  reference to the instance is never reset; so this holds throughout an activation.
\<close>

definition hook_inv :: "hook_state \<Rightarrow> bool" where
  "hook_inv st = (osmdRef st \<noteq> None \<or> \<not> isLoading st)"

section \<open>The component (SheetMusic)\<close>

text \<open>
  The props the load logic reads. \<open>onLoad\<close> is \<open>None\<close> if no callback is given, and
  otherwise says what the callback does when called: return (\<open>None\<close>) or throw.
  \<open>file_prop\<close> is the prop \<^verbatim>\<open>file\<close>.
  \<open>onError\<close> says whether the callback is given.
\<close>

record SheetMusicProps =
  file_prop :: "source option"
  musicXML :: "string option"
  onLoad :: "thrown option option"
  onError :: bool

record component_state =
  hook :: hook_state
  prevFileRef :: "source option"
  prevMusicXMLRef :: "string option"

text \<open>
  Truthiness of the two props: \<^verbatim>\<open>undefined\<close> and the empty string are falsy, every other
  string and every object is truthy.
\<close>

fun truthy_file :: "source option \<Rightarrow> bool" where
  "truthy_file None = False"
| "truthy_file (Some (Path p)) = (p \<noteq> [])"
| "truthy_file (Some s) = True"

fun truthy_string :: "string option \<Rightarrow> bool" where
  "truthy_string None = False"
| "truthy_string (Some s) = (s \<noteq> [])"

text \<open>
  \<^verbatim>\<open>String.prototype.trim\<close> removes white space and line terminators from both ends.
  A character here is one byte; these are the white-space and line-terminator code
  points below 256: tab, line feed, vertical tab, form feed, carriage return, space and
  no-break space.
\<close>

definition is_whitespace :: "char \<Rightarrow> bool" where
  "is_whitespace c = (of_char c \<in> {9, 10, 11, 12, 13, 32, 160 :: nat})"

definition trim :: "string \<Rightarrow> string" where
  "trim s = rev (dropWhile is_whitespace (rev (dropWhile is_whitespace s)))"

definition log_event :: "event \<Rightarrow> component_state \<Rightarrow> component_state" where
  "log_event e cs = cs\<lparr> hook := (hook cs)\<lparr> trace := trace (hook cs) @ [e] \<rparr> \<rparr>"

text \<open>
  The \<^verbatim>\<open>catch\<close> block of \<^verbatim>\<open>loadMusic\<close>.
\<close>

definition catch_block :: "SheetMusicProps \<Rightarrow> thrown \<Rightarrow> component_state \<Rightarrow> component_state" where
  "catch_block props err cs =
     (let e = as_Error ''Failed to load music'' err
      in if onError props then log_event (OnError e) cs else cs)"

text \<open>
  The end of the \<^verbatim>\<open>try\<close> block: \<^verbatim>\<open>await load(source); onLoad?.(osmd)\<close>, where \<^verbatim>\<open>load\<close> is the
  operation of the hook, called without a title.
\<close>

definition await_load ::
  "SheetMusicProps \<Rightarrow> engine \<Rightarrow> source \<Rightarrow> thrown option \<Rightarrow> thrown option \<Rightarrow> component_state \<Rightarrow> component_state" where
  "await_load props instance src load_outcome render_outcome cs =
     (case load src None load_outcome render_outcome (hook cs) of
        (Inl err, h) \<Rightarrow> catch_block props err (cs\<lparr> hook := h \<rparr>)
      | (Inr u, h) \<Rightarrow>
          (case onLoad props of
             None \<Rightarrow> cs\<lparr> hook := h \<rparr>
           | Some None \<Rightarrow> log_event (OnLoad instance) (cs\<lparr> hook := h \<rparr>)
           | Some (Some err) \<Rightarrow> catch_block props err (log_event (OnLoad instance) (cs\<lparr> hook := h \<rparr>))))"

text \<open>
  \<^verbatim>\<open>loadMusic\<close>: the choice of the source, in the order of the source text.
\<close>

definition loadMusic ::
  "SheetMusicProps \<Rightarrow> engine \<Rightarrow> thrown option \<Rightarrow> thrown option \<Rightarrow> component_state \<Rightarrow> component_state" where
  "loadMusic props instance load_outcome render_outcome cs =
     (if truthy_string (musicXML props) then
        (case musicXML props of
           None \<Rightarrow> cs
         | Some xml \<Rightarrow>
             if trim xml = [] then cs
             else await_load props instance (ParsedDocument xml ''text/xml'') load_outcome render_outcome
                    (cs\<lparr> prevMusicXMLRef := Some xml \<rparr>))
      else if truthy_file (file_prop props) then
        (case file_prop props of
           None \<Rightarrow> cs
         | Some f \<Rightarrow>
             if f = Path [] then cs
             else await_load props instance f load_outcome render_outcome (cs\<lparr> prevFileRef := Some f \<rparr>))
      else cs)"

text \<open>
  The first effect of the component, with the asynchronous \<^verbatim>\<open>loadMusic\<close> run to its end.
\<close>

definition load_effect ::
  "SheetMusicProps \<Rightarrow> thrown option \<Rightarrow> thrown option \<Rightarrow> component_state \<Rightarrow> component_state" where
  "load_effect props load_outcome render_outcome cs =
     (case osmd (hook cs) of
        None \<Rightarrow> cs
      | Some instance \<Rightarrow>
          (let fileChanged = (file_prop props \<noteq> prevFileRef cs);
               xmlChanged = (musicXML props \<noteq> prevMusicXMLRef cs)
           in if \<not> fileChanged \<and> \<not> xmlChanged then cs
              else if \<not> truthy_file (file_prop props) \<and> \<not> truthy_string (musicXML props) then cs
              else loadMusic props instance load_outcome render_outcome cs))"

text \<open>
  The second effect: it forwards the error state to \<^verbatim>\<open>onError\<close>.
\<close>

definition error_effect :: "SheetMusicProps \<Rightarrow> component_state \<Rightarrow> component_state" where
  "error_effect props cs =
     (case error (hook cs) of
        None \<Rightarrow> cs
      | Some e \<Rightarrow> if onError props then log_event (OnError e) cs else cs)"

text \<open>
  A mounted component whose engine was constructed: the state after the initialisation
  effect has run once with a container, before any load.
\<close>

definition mounted :: "engine \<Rightarrow> component_state" where
  "mounted instance =
     \<lparr> hook = init_effect True (Inr instance) useOSMD_initial,
       prevFileRef = None, prevMusicXMLRef = None \<rparr>"

text \<open>
  The sources of the engine's \<^verbatim>\<open>load\<close> calls in a trace, in order.
\<close>

fun loaded_sources :: "event list \<Rightarrow> source list" where
  "loaded_sources [] = []"
| "loaded_sources (EngineLoad s t # es) = s # loaded_sources es"
| "loaded_sources (e # es) = loaded_sources es"

section \<open>Cursor list: indices out of range\<close>

lemma filter_from_below: "index < int k \<Longrightarrow> filter_from (\<lambda>_ i. int i \<noteq> index) k xs = xs"
  by (induction xs arbitrary: k) simp_all

lemma filter_from_above:
  "int k + int (length xs) \<le> index \<Longrightarrow> filter_from (\<lambda>_ i. int i \<noteq> index) k xs = xs"
  by (induction xs arbitrary: k) simp_all

lemma map_from_below:
  "index < int k \<Longrightarrow> map_from (\<lambda>c i. if int i = index then g c else c) k xs = xs"
  by (induction xs arbitrary: k) simp_all

lemma map_from_above:
  "int k + int (length xs) \<le> index \<Longrightarrow> map_from (\<lambda>c i. if int i = index then g c else c) k xs = xs"
  by (induction xs arbitrary: k) simp_all

text \<open>
  C8. For every cursor list and every integer index that is negative or at least the
  length of the list, \<^verbatim>\<open>removeCursor\<close> and \<^verbatim>\<open>updateCursor\<close> return the list itself: the
  same elements in the same order. Both are total functions with no error result.
\<close>

theorem cursor_index_out_of_range:
  "index < 0 \<or> int (length cursors) \<le> index \<Longrightarrow>
     removeCursor index cursors = cursors \<and> updateCursor index update cursors = cursors"
  unfolding removeCursor_def updateCursor_def array_filter_def array_map_def
  using filter_from_below [of index 0 cursors] filter_from_above [of 0 cursors index]
    map_from_below [of index 0 "\<lambda>c. spread c update" cursors]
    map_from_above [of 0 cursors index "\<lambda>c. spread c update"]
  by auto

theorem cursor_index_out_of_range_witness:
  "((-1::int) < 0 \<or> int (length [\<lparr>type = Standard, color = ''#33e02f'', alpha = (1::int), follow = False\<rparr>]) \<le> -1)
   \<and> removeCursor (-1) [\<lparr>type = Standard, color = ''#33e02f'', alpha = (1::int), follow = False\<rparr>]
       = [\<lparr>type = Standard, color = ''#33e02f'', alpha = 1, follow = False\<rparr>]
   \<and> updateCursor 1 \<lparr>type_opt = None, color_opt = Some ''#000000'', alpha_opt = None, follow_opt = None\<rparr>
         [\<lparr>type = Standard, color = ''#33e02f'', alpha = (1::int), follow = False\<rparr>]
       = [\<lparr>type = Standard, color = ''#33e02f'', alpha = 1, follow = False\<rparr>]"
  using cursor_index_out_of_range [of "-1" "[\<lparr>type = Standard, color = ''#33e02f'', alpha = (1::int), follow = False\<rparr>]"
      "\<lparr>type_opt = None, color_opt = None, alpha_opt = None, follow_opt = None\<rparr>"]
    cursor_index_out_of_range [of 1 "[\<lparr>type = Standard, color = ''#33e02f'', alpha = (1::int), follow = False\<rparr>]"
      "\<lparr>type_opt = None, color_opt = Some ''#000000'', alpha_opt = None, follow_opt = None\<rparr>"]
  by simp

section \<open>Coloring: dark mode\<close>

lemma darkMode_foldl:
  "darkMode (foldl coloring_step s acts) \<Longrightarrow> darkMode s \<or> SetDarkMode True \<in> set acts"
proof (induction acts arbitrary: s)
  case Nil
  then show ?case by simp
next
  case (Cons a acts)
  from Cons.prems have "darkMode (foldl coloring_step (coloring_step s a) acts)" by simp
  then have "darkMode (coloring_step s a) \<or> SetDarkMode True \<in> set acts" by (rule Cons.IH)
  then show ?case by (cases a) auto
qed

text \<open>
  C10. Whatever options \<^verbatim>\<open>useColoring\<close> is given, the initial \<^verbatim>\<open>darkMode\<close> is false (the
  options record has no key for it), and after any sequence of setter calls it is true
  only if \<^verbatim>\<open>setDarkMode(true)\<close> was among them.
\<close>

theorem initial_darkMode_false:
  "darkMode (useColoring initialOptions) = False \<and>
   (darkMode (coloring_run (useColoring initialOptions) acts) \<longrightarrow> SetDarkMode True \<in> set acts)"
proof -
  have init: "darkMode (useColoring initialOptions) = False"
    by (simp add: useColoring_def)
  have "SetDarkMode True \<in> set acts" if "darkMode (coloring_run (useColoring initialOptions) acts)"
    using darkMode_foldl [of "useColoring initialOptions" acts] that init
    by (simp add: coloring_run_def)
  with init show ?thesis by blast
qed

theorem initial_darkMode_false_witness:
  "darkMode (coloring_run (useColoring \<lparr>mode = Some Boomwhacker, customColors_opt = None, enabled = Some True\<rparr>)
      [SetColoringEnabled False, SetDarkMode True])
   \<and> SetDarkMode True \<in> set [SetColoringEnabled False, SetDarkMode True]
   \<and> \<not> darkMode (useColoring \<lparr>mode = Some Boomwhacker, customColors_opt = None, enabled = Some True\<rparr>)"
  using initial_darkMode_false [of "\<lparr>mode = Some Boomwhacker, customColors_opt = None, enabled = Some True\<rparr>"
      "[SetColoringEnabled False, SetDarkMode True]"]
  by (simp add: coloring_run_def)

section \<open>Page format: custom formats\<close>

text \<open>
  C7. \<^verbatim>\<open>setCustomFormat(w, h)\<close> without an id gives the id string that the expression
  \<^verbatim>\<open>"Custom_" + w + "x" + h\<close> evaluates to; with the empty string as id it gives the empty
  id string; and in every case \<^verbatim>\<open>isInfinite\<close> is false and width and height are the
  arguments.
\<close>

theorem setCustomFormat_id:
  "setCustomFormat toStr w h None =
     Format \<lparr> width = w, height = h, idString = spec_custom_id toStr w h, isInfinite = Some False \<rparr>
   \<and> setCustomFormat toStr w h (Some []) =
     Format \<lparr> width = w, height = h, idString = [], isInfinite = Some False \<rparr>
   \<and> (\<exists>s. setCustomFormat toStr w h id_arg =
          Format \<lparr> width = w, height = h, idString = s, isInfinite = Some False \<rparr>)"
  by (simp add: setCustomFormat_def spec_custom_id_def split: option.split)

theorem setCustomFormat_id_witness:
  "setCustomFormat nat_toString 100 200 None =
     Format \<lparr> width = 100, height = 200, idString = ''Custom_100x200'', isInfinite = Some False \<rparr>"
proof -
  have "spec_custom_id nat_toString 100 200 = ''Custom_100x200''"
    by code_simp
  with setCustomFormat_id [of nat_toString 100 200] show ?thesis by simp
qed

section \<open>Page format: names that are not in the registry\<close>

lemma setFormat_unknown:
  "map_of PageFormats name = None \<Longrightarrow> name \<notin> set Object_prototype_keys \<Longrightarrow>
     setFormat (Name name) = Format Endless"
  by (simp add: setFormat_def PageFormats_get_def or_else_def)

lemma setFormat_known:
  "map_of PageFormats name = Some f \<Longrightarrow> setFormat (Name name) = Format f"
  by (simp add: setFormat_def PageFormats_get_def or_else_def)

lemma setFormat_unknown_example: "setFormat (Name ''InvalidFormat'') = Format Endless"
  by (simp add: setFormat_def PageFormats_get_def or_else_def PageFormats_def Object_prototype_keys_def)

text \<open>
  C6. The claim is that every string that is not a key of the registry makes
  \<^verbatim>\<open>setFormat\<close> choose the \<^verbatim>\<open>Endless\<close> entry. The name \<^verbatim>\<open>toString\<close> is not a key of the
  registry, yet \<^verbatim>\<open>PageFormats['toString']\<close> reads the function inherited from
  \<^verbatim>\<open>Object.prototype\<close>, which is truthy, so the fallback after \<^verbatim>\<open>||\<close> is not taken and
  \<^verbatim>\<open>setFormatState\<close> is handed that function, not the \<^verbatim>\<open>Endless\<close> entry. The framework
  calls a function it is handed as an updater, so what it stores is the string that call
  returns, \<^verbatim>\<open>[object Undefined]\<close>, which is not the \<^verbatim>\<open>Endless\<close> entry either.
\<close>

theorem setFormat_inherited_name:
  "map_of PageFormats ''toString'' = None
   \<and> setFormat (Name ''toString'') = PrototypeMember ''toString''
   \<and> setFormat (Name ''toString'') \<noteq> Format Endless"
  by (simp add: setFormat_def PageFormats_get_def or_else_def PageFormats_def Object_prototype_keys_def)

section \<open>Engine binding: construction\<close>

lemma latch_inv_initial: "latch_inv useOSMD_initial"
  by (simp add: latch_inv_def useOSMD_initial_def constructions_def)

lemma latch_step:
  "latch_inv st \<Longrightarrow>
     latch_inv (activation_step_part_003 st s)
     \<and> initRef (activation_step_part_003 st s) = (initRef st \<or> attempts_construction s)"
  by (cases s)
     (auto simp: latch_inv_def init_effect_part_003_def cleanup_def constructions_def Let_def
           split: sum.splits option.splits)

lemma latch_run:
  "latch_inv st \<Longrightarrow>
     latch_inv (foldl activation_step_part_003 st steps)
     \<and> initRef (foldl activation_step_part_003 st steps)
         = (initRef st \<or> (\<exists>s \<in> set steps. attempts_construction s))"
proof (induction steps arbitrary: st)
  case Nil
  then show ?case by simp
next
  case (Cons s steps)
  from latch_step [OF Cons.prems, of s] Cons.IH [of "activation_step_part_003 st s"]
  show ?case by auto
qed

text \<open>
  The revision in \<^verbatim>\<open>unnamed/part_003\<close> calls the constructor once in an activation, at the
  first run of the effect that finds a container, and never again, whether that call
  threw or not; a failure is kept in the error state, wrapped if it is not an \<^verbatim>\<open>Error\<close>.
\<close>

lemma part_003_constructs_once:
  "constructions (trace (activation_part_003 steps))
     = (if \<exists>s \<in> set steps. attempts_construction s then 1 else 0)"
  using latch_run [OF latch_inv_initial, of steps]
  by (simp add: activation_part_003_def latch_inv_def useOSMD_initial_def)

lemma part_003_failure_captured:
  "init_effect_part_003 True (Inl err) useOSMD_initial =
     useOSMD_initial\<lparr> error := Some (as_Error ''Failed to initialize OSMD'' err), initRef := True,
        trace := [Construct, SetError (Some (as_Error ''Failed to initialize OSMD'' err))] \<rparr>"
  by (simp add: init_effect_part_003_def useOSMD_initial_def Let_def)

lemma part_003_no_retry_example:
  "constructions (trace (activation_part_003
      [RunEffect True (Inl (ErrorObject ''Init failed'')), RunCleanup None,
       RunEffect True (Inl (ErrorObject ''Init failed''))])) = 1"
  by (simp add: part_003_constructs_once)

text \<open>
  C3. The claim is that construction is attempted once in an activation, also when it
  fails and the effect runs again. In \<^verbatim>\<open>src/hooks/useOSMD.ts\<close> the \<^verbatim>\<open>catch\<close> block leaves
  \<^verbatim>\<open>initRef.current\<close> false: with a container and a constructor that throws, the effect,
  its cleanup and the effect again call the constructor twice. The failure is kept in
  the error state and there is still no instance.
\<close>

theorem init_effect_retries_after_failure:
  "constructions (trace (activation
      [RunEffect True (Inl (ErrorObject ''Init failed'')), RunCleanup None,
       RunEffect True (Inl (ErrorObject ''Init failed''))])) = 2
   \<and> osmd (activation
      [RunEffect True (Inl (ErrorObject ''Init failed'')), RunCleanup None,
       RunEffect True (Inl (ErrorObject ''Init failed''))]) = None
   \<and> error (activation
      [RunEffect True (Inl (ErrorObject ''Init failed'')), RunCleanup None,
       RunEffect True (Inl (ErrorObject ''Init failed''))]) = Some (ErrorObject ''Init failed'')"
  by (simp add: activation_def init_effect_def cleanup_def useOSMD_initial_def constructions_def
      as_Error_def Let_def)

section \<open>Engine binding: the invariant of the loading flag\<close>

lemma hook_inv_initial: "hook_inv useOSMD_initial"
  by (simp add: hook_inv_def useOSMD_initial_def)

lemma hook_inv_init_effect: "hook_inv st \<Longrightarrow> hook_inv (init_effect container ctor st)"
  by (auto simp: hook_inv_def init_effect_def Let_def split: sum.splits)

lemma hook_inv_init_effect_part_003: "hook_inv st \<Longrightarrow> hook_inv (init_effect_part_003 container ctor st)"
  by (auto simp: hook_inv_def init_effect_part_003_def Let_def split: sum.splits)

lemma hook_inv_cleanup: "hook_inv st \<Longrightarrow> hook_inv (cleanup clear_outcome st)"
  by (auto simp: hook_inv_def cleanup_def split: option.splits)

lemma hook_inv_load_start: "load_start file title st = Inr st1 \<Longrightarrow> hook_inv st1"
  by (auto simp: hook_inv_def load_start_def split: option.splits)

lemma hook_inv_load_settle: "hook_inv (snd (load_settle load_outcome render_outcome st))"
  by (auto simp: hook_inv_def load_settle_def load_failed_def Let_def split: option.splits)

lemma hook_inv_clear: "hook_inv st \<Longrightarrow> hook_inv (snd (clear clear_outcome st))"
  by (auto simp: hook_inv_def clear_def split: option.splits)

lemma hook_inv_render: "hook_inv st \<Longrightarrow> hook_inv (snd (render render_outcome st))"
  by (auto simp: hook_inv_def render_def split: option.splits)

lemma hook_inv_setZoom: "hook_inv st \<Longrightarrow> hook_inv (snd (setZoom scale render_outcome st))"
  by (auto simp: hook_inv_def setZoom_def Let_def split: option.splits)

text \<open>
  The state cell \<^verbatim>\<open>osmd\<close> and the reference \<^verbatim>\<open>osmdRef\<close> are assigned together, by the
  effect only, so they agree throughout an activation; \<open>load\<close>, \<open>render\<close>, \<open>clear\<close> and
  \<open>setZoom\<close> change neither.
\<close>

lemma refs_agree_step:
  "osmd st = osmdRef st \<Longrightarrow>
     osmd (activation_step st s) = osmdRef (activation_step st s)
     \<and> osmd (activation_step_part_003 st s) = osmdRef (activation_step_part_003 st s)"
  by (cases s)
     (auto simp: init_effect_def init_effect_part_003_def cleanup_def Let_def split: sum.splits option.splits)

lemma refs_agree_run:
  "osmd st = osmdRef st \<Longrightarrow>
     osmd (foldl activation_step st steps) = osmdRef (foldl activation_step st steps)"
proof (induction steps arbitrary: st)
  case Nil
  then show ?case by simp
next
  case (Cons s steps)
  from refs_agree_step [OF Cons.prems, of s] have "osmd (activation_step st s) = osmdRef (activation_step st s)"
    by simp
  then show ?case using Cons.IH by simp
qed

lemma refs_agree_run_part_003:
  "osmd st = osmdRef st \<Longrightarrow>
     osmd (foldl activation_step_part_003 st steps) = osmdRef (foldl activation_step_part_003 st steps)"
proof (induction steps arbitrary: st)
  case Nil
  then show ?case by simp
next
  case (Cons s steps)
  from refs_agree_step [OF Cons.prems, of s]
  have "osmd (activation_step_part_003 st s) = osmdRef (activation_step_part_003 st s)"
    by simp
  then show ?case using Cons.IH by simp
qed

lemma refs_agree_activation:
  "osmd (activation steps) = osmdRef (activation steps)
   \<and> osmd (activation_part_003 steps) = osmdRef (activation_part_003 steps)"
  using refs_agree_run [of useOSMD_initial steps] refs_agree_run_part_003 [of useOSMD_initial steps]
  by (simp add: activation_def activation_part_003_def useOSMD_initial_def)

lemma refs_unchanged_by_operations:
  "osmdRef (snd (load file title lo ro st)) = osmdRef st \<and> osmd (snd (load file title lo ro st)) = osmd st
   \<and> osmdRef (snd (clear oc st)) = osmdRef st \<and> osmd (snd (clear oc st)) = osmd st
   \<and> osmdRef (snd (render ro st)) = osmdRef st \<and> osmd (snd (render ro st)) = osmd st
   \<and> osmdRef (snd (setZoom z ro st)) = osmdRef st \<and> osmd (snd (setZoom z ro st)) = osmd st"
  by (auto simp: load_def load_start_def load_settle_def load_failed_def clear_def render_def setZoom_def Let_def
           split: option.splits)

section \<open>Engine binding: load\<close>

text \<open>
  C1. Without an instance \<^verbatim>\<open>load\<close> throws the not-initialised error and changes nothing.
  With an instance it sets \<^verbatim>\<open>isLoading\<close> to true and clears \<^verbatim>\<open>error\<close>, in this order, before
  it calls the engine's \<^verbatim>\<open>load\<close>; if the promise resolves it calls \<^verbatim>\<open>render\<close> and, if that
  returns, returns with \<^verbatim>\<open>isLoading\<close> false and \<^verbatim>\<open>error\<close> null. If the promise rejects
  (\<^verbatim>\<open>render\<close> is then not called) or \<^verbatim>\<open>render\<close> throws, the value is kept if it is an
  \<^verbatim>\<open>Error\<close> and replaced by an \<^verbatim>\<open>Error\<close> with the message \<^verbatim>\<open>Failed to load music\<close> if not,
  stored as \<^verbatim>\<open>error\<close> and thrown to the caller, and \<^verbatim>\<open>isLoading\<close> is set to false last.
  So \<^verbatim>\<open>isLoading\<close> is false after \<^verbatim>\<open>load\<close> whenever there is an instance, and in every
  state in which the flag is not set without an instance, which no operation produces.
\<close>

theorem load_contract:
  "(osmdRef st = None \<longrightarrow> load file title lo ro st = (Inl NotInitialized, st))
   \<and> (osmdRef st \<noteq> None \<longrightarrow>
        load_start file title st =
          Inr (st\<lparr> isLoading := True, error := None,
                    trace := trace st @ [SetIsLoading True, SetError None, EngineLoad file title] \<rparr>)
        \<and> load file title None None st =
            (Inr (), st\<lparr> isLoading := False, error := None,
               trace := trace st @ [SetIsLoading True, SetError None, EngineLoad file title,
                                    EngineRender, SetIsLoading False] \<rparr>)
        \<and> load file title (Some err) ro st =
            (Inl (as_Error ''Failed to load music'' err),
             st\<lparr> isLoading := False, error := Some (as_Error ''Failed to load music'' err),
               trace := trace st @ [SetIsLoading True, SetError None, EngineLoad file title,
                  SetError (Some (as_Error ''Failed to load music'' err)), SetIsLoading False] \<rparr>)
        \<and> load file title None (Some err) st =
            (Inl (as_Error ''Failed to load music'' err),
             st\<lparr> isLoading := False, error := Some (as_Error ''Failed to load music'' err),
               trace := trace st @ [SetIsLoading True, SetError None, EngineLoad file title, EngineRender,
                  SetError (Some (as_Error ''Failed to load music'' err)), SetIsLoading False] \<rparr>)
        \<and> \<not> isLoading (snd (load file title lo ro st)))
   \<and> (hook_inv st \<longrightarrow> \<not> isLoading (snd (load file title lo ro st)))
   \<and> as_Error ''Failed to load music'' (OtherValue v) = ErrorObject ''Failed to load music''
   \<and> as_Error ''Failed to load music'' (ErrorObject m) = ErrorObject m"
  by (auto simp: load_def load_start_def load_settle_def load_failed_def hook_inv_def as_Error_def Let_def
           split: option.splits)

theorem load_contract_witness:
  "osmdRef useOSMD_initial = None
   \<and> load (Path ''test.musicxml'') None None None useOSMD_initial = (Inl NotInitialized, useOSMD_initial)
   \<and> osmdRef (init_effect True (Inr \<lparr> engine_id = 0, zoom = 1 \<rparr>) useOSMD_initial) \<noteq> None
   \<and> hook_inv (init_effect True (Inr \<lparr> engine_id = 0, zoom = 1 \<rparr>) useOSMD_initial)
   \<and> fst (load (Path ''test.musicxml'') None (Some (OtherValue ''String error'')) None
          (init_effect True (Inr \<lparr> engine_id = 0, zoom = 1 \<rparr>) useOSMD_initial))
       = Inl (ErrorObject ''Failed to load music'')
   \<and> \<not> isLoading (snd (load (Path ''test.musicxml'') None (Some (OtherValue ''String error'')) None
          (init_effect True (Inr \<lparr> engine_id = 0, zoom = 1 \<rparr>) useOSMD_initial)))"
  using load_contract [of useOSMD_initial "Path ''test.musicxml''" None None None]
    load_contract [of "init_effect True (Inr \<lparr> engine_id = 0, zoom = 1 \<rparr>) useOSMD_initial"
      "Path ''test.musicxml''" None "Some (OtherValue ''String error'')" None "OtherValue ''String error''"]
  by (simp add: useOSMD_initial_def init_effect_def hook_inv_def as_Error_def Let_def)

section \<open>Engine binding: clear\<close>

text \<open>
  If the engine's \<^verbatim>\<open>clear\<close> throws, \<^verbatim>\<open>clear\<close> of the hook passes the exception on and the
  error state keeps its value.
\<close>

lemma clear_propagates:
  "osmdRef st \<noteq> None \<Longrightarrow>
     clear (Some err) st = (Inl err, st\<lparr> trace := trace st @ [EngineClear] \<rparr>)"
  by (auto simp: clear_def split: option.splits)

text \<open>
  C5, as claimed: whenever there is an instance, \<^verbatim>\<open>clear\<close> calls the engine's \<^verbatim>\<open>clear\<close> and
  resets \<^verbatim>\<open>error\<close> to null. It does not when the engine's \<^verbatim>\<open>clear\<close> throws: after a
  construction and a load that was rejected with \<^verbatim>\<open>Error('Load failed')\<close>, a \<^verbatim>\<open>clear\<close> whose
  engine call throws \<^verbatim>\<open>Error('Clear failed')\<close> throws that error to its caller, and
  \<^verbatim>\<open>error\<close> is still the error of the load.
\<close>

theorem clear_throwing_example:
  "osmdRef (snd (load (Path ''test.musicxml'') None (Some (ErrorObject ''Load failed'')) None
       (init_effect True (Inr \<lparr> engine_id = 0, zoom = 1 \<rparr>) useOSMD_initial)))
     = Some \<lparr> engine_id = 0, zoom = 1 \<rparr>
   \<and> fst (clear (Some (ErrorObject ''Clear failed''))
       (snd (load (Path ''test.musicxml'') None (Some (ErrorObject ''Load failed'')) None
          (init_effect True (Inr \<lparr> engine_id = 0, zoom = 1 \<rparr>) useOSMD_initial))))
     = Inl (ErrorObject ''Clear failed'')
   \<and> error (snd (clear (Some (ErrorObject ''Clear failed''))
       (snd (load (Path ''test.musicxml'') None (Some (ErrorObject ''Load failed'')) None
          (init_effect True (Inr \<lparr> engine_id = 0, zoom = 1 \<rparr>) useOSMD_initial)))))
     = Some (ErrorObject ''Load failed'')
   \<and> engine_calls (trace (snd (clear (Some (ErrorObject ''Clear failed''))
       (snd (load (Path ''test.musicxml'') None (Some (ErrorObject ''Load failed'')) None
          (init_effect True (Inr \<lparr> engine_id = 0, zoom = 1 \<rparr>) useOSMD_initial))))))
     = [Construct, EngineLoad (Path ''test.musicxml'') None, EngineClear]"
  by (simp add: clear_def load_def load_start_def load_settle_def load_failed_def init_effect_def
      useOSMD_initial_def engine_calls_def as_Error_def Let_def)

text \<open>
  C5, amended. Without an instance \<^verbatim>\<open>clear\<close> changes nothing and returns. With an instance
  it calls the engine's \<^verbatim>\<open>clear\<close>, and that is its only call into the engine. If the call
  returns, \<^verbatim>\<open>clear\<close> sets \<^verbatim>\<open>error\<close> to null and returns; if the call throws, \<^verbatim>\<open>clear\<close> throws
  the same value to its caller and leaves \<^verbatim>\<open>error\<close> and everything else but the trace as
  it was. \<^verbatim>\<open>isLoading\<close> keeps its value in every case. Two calls in a row make exactly two
  \<^verbatim>\<open>clear\<close> calls into the engine, whatever these do, and if the second engine call
  returns, \<^verbatim>\<open>error\<close> is null afterwards.
\<close>

theorem clear_contract:
  "(osmdRef st = None \<longrightarrow> clear clear_outcome st = (Inr (), st))
   \<and> (osmdRef st \<noteq> None \<longrightarrow>
        clear None st = (Inr (), st\<lparr> error := None, trace := trace st @ [EngineClear, SetError None] \<rparr>)
        \<and> clear (Some err) st = (Inl err, st\<lparr> trace := trace st @ [EngineClear] \<rparr>)
        \<and> engine_calls (trace (snd (clear clear_outcome st))) = engine_calls (trace st) @ [EngineClear]
        \<and> engine_calls (trace (snd (clear second_outcome (snd (clear clear_outcome st)))))
            = engine_calls (trace st) @ [EngineClear, EngineClear]
        \<and> error (snd (clear None (snd (clear clear_outcome st)))) = None)
   \<and> isLoading (snd (clear clear_outcome st)) = isLoading st"
  by (auto simp: clear_def engine_calls_def split: option.splits)

theorem clear_contract_witness:
  "osmdRef useOSMD_initial = None
   \<and> clear None useOSMD_initial = (Inr (), useOSMD_initial)
   \<and> osmdRef (init_effect True (Inr \<lparr> engine_id = 0, zoom = 1 \<rparr>) useOSMD_initial) \<noteq> None
   \<and> fst (clear (Some (OtherValue ''boom''))
          (init_effect True (Inr \<lparr> engine_id = 0, zoom = 1 \<rparr>) useOSMD_initial))
       = Inl (OtherValue ''boom'')
   \<and> engine_calls (trace (snd (clear None (snd (clear (Some (OtherValue ''boom''))
          (init_effect True (Inr \<lparr> engine_id = 0, zoom = 1 \<rparr>) useOSMD_initial))))))
       = [Construct, EngineClear, EngineClear]
   \<and> error (snd (clear None (snd (clear (Some (OtherValue ''boom''))
          (init_effect True (Inr \<lparr> engine_id = 0, zoom = 1 \<rparr>) useOSMD_initial))))) = None"
  using clear_contract [of useOSMD_initial None]
    clear_contract [of "init_effect True (Inr \<lparr> engine_id = 0, zoom = 1 \<rparr>) useOSMD_initial"
      "Some (OtherValue ''boom'')" "OtherValue ''boom''" None]
  by (simp add: useOSMD_initial_def init_effect_def clear_def engine_calls_def Let_def)

section \<open>The component: which source is loaded\<close>

lemma trim_whitespace: "list_all is_whitespace s \<Longrightarrow> trim s = []"
proof -
  assume "list_all is_whitespace s"
  then have eq: "dropWhile is_whitespace s = []"
    by (simp add: list_all_iff)
  show ?thesis unfolding trim_def eq by simp
qed

lemma trim_empty_iff: "trim s = [] \<longleftrightarrow> list_all is_whitespace s"
proof
  assume "trim s = []"
  then have all: "\<forall>c \<in> set (dropWhile is_whitespace s). is_whitespace c"
    by (simp add: trim_def)
  have "dropWhile is_whitespace s = []"
  proof (rule ccontr)
    assume ne: "dropWhile is_whitespace s \<noteq> []"
    then have "\<not> is_whitespace (hd (dropWhile is_whitespace s))"
      by (rule hd_dropWhile)
    moreover from ne have "hd (dropWhile is_whitespace s) \<in> set (dropWhile is_whitespace s)"
      by (rule hd_in_set)
    ultimately show False using all by blast
  qed
  then show "list_all is_whitespace s"
    by (simp add: list_all_iff)
qed (rule trim_whitespace)

lemma loaded_sources_append: "loaded_sources (xs @ ys) = loaded_sources xs @ loaded_sources ys"
  by (induction xs rule: loaded_sources.induct) simp_all

lemma loaded_sources_load:
  "loaded_sources (trace (snd (load src title lo ro st))) =
     loaded_sources (trace st) @ (if osmdRef st = None then [] else [src])"
  by (auto simp: load_def load_start_def load_settle_def load_failed_def Let_def loaded_sources_append
           split: option.splits)

lemma loaded_sources_catch_block:
  "loaded_sources (trace (hook (catch_block props err cs))) = loaded_sources (trace (hook cs))"
  by (simp add: catch_block_def log_event_def Let_def loaded_sources_append)

lemma loaded_sources_await_load:
  "loaded_sources (trace (hook (await_load props instance src lo ro cs))) =
     loaded_sources (trace (hook cs)) @ (if osmdRef (hook cs) = None then [] else [src])"
  using loaded_sources_load [of src None lo ro "hook cs"]
  by (auto simp: await_load_def loaded_sources_catch_block log_event_def loaded_sources_append
           split: prod.splits sum.splits option.splits)

lemma prev_refs_catch_block:
  "prevMusicXMLRef (catch_block props err cs) = prevMusicXMLRef cs
   \<and> prevFileRef (catch_block props err cs) = prevFileRef cs"
  by (simp add: catch_block_def log_event_def Let_def)

lemma prev_refs_await_load:
  "prevMusicXMLRef (await_load props instance src lo ro cs) = prevMusicXMLRef cs
   \<and> prevFileRef (await_load props instance src lo ro cs) = prevFileRef cs"
  by (simp add: await_load_def prev_refs_catch_block log_event_def split: prod.splits sum.splits option.splits)

text \<open>
  A changed, non-empty file path is loaded as it is when there is no \<^verbatim>\<open>musicXML\<close>.
\<close>

lemma file_path_is_loaded:
  "loaded_sources (trace (hook (load_effect
      \<lparr> file_prop = Some (Path ''test.musicxml''), musicXML = None, onLoad = None, onError = False \<rparr>
      None None (mounted \<lparr> engine_id = 0, zoom = 1 \<rparr>))))
   = [Path ''test.musicxml'']"
  by (simp add: load_effect_def loadMusic_def loaded_sources_await_load mounted_def init_effect_def
      useOSMD_initial_def Let_def)

text \<open>
  C2, as claimed: given the empty string as \<^verbatim>\<open>file\<close> and no \<^verbatim>\<open>musicXML\<close>, the component
  calls \<^verbatim>\<open>load\<close> with the empty string. It does not: on a mounted component with an
  engine the effect leaves the trace as the construction left it, with no load in it.
\<close>

theorem empty_file_example:
  "trace (hook (load_effect \<lparr> file_prop = Some (Path ''''), musicXML = None, onLoad = None, onError = False \<rparr>
      None None (mounted \<lparr> engine_id = 0, zoom = 1 \<rparr>)))
     = [Construct, SetOsmd \<lparr> engine_id = 0, zoom = 1 \<rparr>, SetZoomValue 1]
   \<and> loaded_sources (trace (hook (load_effect
        \<lparr> file_prop = Some (Path ''''), musicXML = None, onLoad = None, onError = False \<rparr>
        None None (mounted \<lparr> engine_id = 0, zoom = 1 \<rparr>)))) = []"
  by (simp add: load_effect_def loadMusic_def mounted_def init_effect_def useOSMD_initial_def Let_def)

text \<open>
  C2, amended. The empty string as \<^verbatim>\<open>file\<close> is treated as absent, as the empty string as
  \<^verbatim>\<open>musicXML\<close> is: with \<^verbatim>\<open>file\<close> empty and \<^verbatim>\<open>musicXML\<close> absent or empty, and with \<^verbatim>\<open>file\<close>
  absent and \<^verbatim>\<open>musicXML\<close> empty, the effect changes nothing in any state; no load is
  triggered and the tracked previous values stay as they are.
\<close>

theorem empty_file_is_skipped:
  "load_effect (props\<lparr> file_prop := Some (Path []), musicXML := None \<rparr>) load_outcome render_outcome cs = cs
   \<and> load_effect (props\<lparr> file_prop := Some (Path []), musicXML := Some [] \<rparr>) load_outcome render_outcome cs = cs
   \<and> load_effect (props\<lparr> file_prop := None, musicXML := Some [] \<rparr>) load_outcome render_outcome cs = cs"
  by (simp add: load_effect_def loadMusic_def Let_def split: option.splits)

theorem empty_file_is_skipped_witness:
  "load_effect \<lparr> file_prop = Some (Path []), musicXML = None, onLoad = Some None, onError = True \<rparr>
      None None (mounted \<lparr> engine_id = 7, zoom = 1 \<rparr>) = mounted \<lparr> engine_id = 7, zoom = 1 \<rparr>"
  using empty_file_is_skipped [of "\<lparr> file_prop = None, musicXML = None, onLoad = Some None, onError = True \<rparr>"
      None None "mounted \<lparr> engine_id = 7, zoom = 1 \<rparr>"]
  by simp

text \<open>
  C4. With a non-empty \<^verbatim>\<open>musicXML\<close>, whatever \<^verbatim>\<open>file\<close> is, a run of the effect makes no
  engine load or exactly one, and that one is given the document parsed from the string
  as \<^verbatim>\<open>text/xml\<close>, not the string and not \<^verbatim>\<open>file\<close>. It makes that load whenever there is an
  engine, one of the two props differs from its tracked previous value and the string
  is not all white space; the string then becomes the tracked previous \<^verbatim>\<open>musicXML\<close>.
\<close>

theorem musicXML_takes_precedence:
  assumes "musicXML props = Some xml" and "xml \<noteq> []"
  shows "(loaded_sources (trace (hook (load_effect props lo ro cs))) = loaded_sources (trace (hook cs))
          \<or> loaded_sources (trace (hook (load_effect props lo ro cs)))
              = loaded_sources (trace (hook cs)) @ [ParsedDocument xml ''text/xml''])
       \<and> (osmd (hook cs) \<noteq> None \<and> osmdRef (hook cs) \<noteq> None \<and> trim xml \<noteq> []
            \<and> (file_prop props \<noteq> prevFileRef cs \<or> musicXML props \<noteq> prevMusicXMLRef cs)
          \<longrightarrow> loaded_sources (trace (hook (load_effect props lo ro cs)))
              = loaded_sources (trace (hook cs)) @ [ParsedDocument xml ''text/xml'']
            \<and> prevMusicXMLRef (load_effect props lo ro cs) = Some xml)"
  using assms
  by (auto simp: load_effect_def loadMusic_def Let_def loaded_sources_await_load prev_refs_await_load
           split: option.splits)

theorem musicXML_takes_precedence_witness:
  "loaded_sources (trace (hook (load_effect
      \<lparr> file_prop = Some (Path ''test.musicxml''), musicXML = Some ''<score-partwise/>'', onLoad = None, onError = False \<rparr>
      None None (mounted \<lparr> engine_id = 0, zoom = 1 \<rparr>))))
   = [ParsedDocument ''<score-partwise/>'' ''text/xml'']"
  using musicXML_takes_precedence [of
      "\<lparr> file_prop = Some (Path ''test.musicxml''), musicXML = Some ''<score-partwise/>'', onLoad = None, onError = False \<rparr>"
      "''<score-partwise/>''" None None "mounted \<lparr> engine_id = 0, zoom = 1 \<rparr>"]
  by (simp add: mounted_def init_effect_def useOSMD_initial_def trim_def is_whitespace_def Let_def)

text \<open>
  C9. A \<^verbatim>\<open>musicXML\<close> that is not empty and consists of white space only, so that trimming
  it gives the empty string, makes the effect change nothing, in every state and
  whatever \<^verbatim>\<open>file\<close> is: the engine's \<^verbatim>\<open>load\<close> is not called and the tracked previous
  \<^verbatim>\<open>musicXML\<close> keeps its value.
\<close>

theorem whitespace_musicXML_no_load:
  "musicXML props = Some xml \<Longrightarrow> xml \<noteq> [] \<Longrightarrow> trim xml = [] \<Longrightarrow>
     load_effect props load_outcome render_outcome cs = cs
     \<and> loaded_sources (trace (hook (load_effect props load_outcome render_outcome cs)))
         = loaded_sources (trace (hook cs))
     \<and> prevMusicXMLRef (load_effect props load_outcome render_outcome cs) = prevMusicXMLRef cs"
  by (simp add: load_effect_def loadMusic_def Let_def split: option.splits)

theorem whitespace_musicXML_no_load_witness:
  "musicXML \<lparr> file_prop = Some (Path ''test.musicxml''), musicXML = Some [CHR '' '', CHR 0x0A], onLoad = None, onError = True \<rparr>
     = Some [CHR '' '', CHR 0x0A]
   \<and> [CHR '' '', CHR 0x0A] \<noteq> []
   \<and> trim [CHR '' '', CHR 0x0A] = []
   \<and> list_all is_whitespace [CHR '' '', CHR 0x0A]
   \<and> load_effect \<lparr> file_prop = Some (Path ''test.musicxml''), musicXML = Some [CHR '' '', CHR 0x0A], onLoad = None, onError = True \<rparr>
         None None (mounted \<lparr> engine_id = 0, zoom = 1 \<rparr>)
       = mounted \<lparr> engine_id = 0, zoom = 1 \<rparr>"
  using whitespace_musicXML_no_load [of
      "\<lparr> file_prop = Some (Path ''test.musicxml''), musicXML = Some [CHR '' '', CHR 0x0A], onLoad = None, onError = True \<rparr>"
      "[CHR '' '', CHR 0x0A]" None None "mounted \<lparr> engine_id = 0, zoom = 1 \<rparr>"]
  by (simp add: is_whitespace_def trim_def)

end
